theory Spec2Isabelle
  imports
    Complex_Main
    "HOL-Library.Product_Lexorder"
    "HOL-Library.List_Lexorder"
    "HOL-Library.Char_ord"
begin

section \<open>Data model\<close>

text \<open>
  The six wire directions of \<^verbatim>\<open>model.topology\<close>. The wiring guide only ever
  iterates over the three principal ones (\<^verbatim>\<open>NORTH\<close>, \<^verbatim>\<open>EAST\<close>,
  \<^verbatim>\<open>SOUTH_WEST\<close>).
\<close>

datatype direction = NORTH | NORTH_EAST | EAST | SOUTH | SOUTH_WEST | WEST

text \<open>The Python exceptions the modelled functions can raise.\<close>

datatype error = KeyError | ValueError | ZeroDivisionError | AssertionError

text \<open>
  A board is an object identity; its six-entry adjacency table
  (\<^verbatim>\<open>board.follow_wire(direction)\<close>) is passed around as a function
  \<open>follow_wire\<close> from board and direction to the neighbouring board.
\<close>

type_synonym board = nat

type_synonym wiring = "board \<Rightarrow> direction \<Rightarrow> board"

text \<open>
  \<^verbatim>\<open>dict(boards)\<close> of a list of pairs: a later pair overrides an earlier one
  with the same key, so the lookup finds the last pair with the key.
\<close>

definition dict :: "('k \<times> 'v) list \<Rightarrow> 'k \<Rightarrow> 'v option" where
  "dict pairs = map_of (rev pairs)"

text \<open>Subscription \<^verbatim>\<open>d[k]\<close> raises \<^verbatim>\<open>KeyError\<close> on a missing key.\<close>

definition subscript :: "('k \<Rightarrow> 'v option) \<Rightarrow> 'k \<Rightarrow> error + 'v" where
  "subscript d k = (case d k of None \<Rightarrow> Inl KeyError | Some v \<Rightarrow> Inr v)"

section \<open>Wire length histogram\<close>

text \<open>
  A dictionary that is iterated over is kept as an association list with one entry
  per key. \<open>dict_modify d k dflt f\<close> is the update
  \<^verbatim>\<open>d[k] = f(d.get(k, dflt))\<close>, which is also what
  \<^verbatim>\<open>d[k] += 1\<close>, \<^verbatim>\<open>d[k].add(x)\<close> and
  \<^verbatim>\<open>d[k].append(x)\<close> do on a \<^verbatim>\<open>defaultdict\<close>. The order of
  the entries (Python's is the order of the hashes) is the order of first insertion
  here; nothing below depends on it.
\<close>

fun dict_modify :: "('k \<times> 'v) list \<Rightarrow> 'k \<Rightarrow> 'v \<Rightarrow> ('v \<Rightarrow> 'v) \<Rightarrow> ('k \<times> 'v) list" where
  "dict_modify [] k dflt f = [(k, f dflt)]"
| "dict_modify ((k', v) # d) k dflt f =
     (if k' = k then (k', f v) # d else (k', v) # dict_modify d k dflt f)"


text \<open>
  \<^verbatim>\<open>hist[length] = hist.get(length,0) + 1\<close> for every length: the
  frequency table of the lengths.
\<close>

definition hist_of :: "'a list \<Rightarrow> ('a \<times> nat) list" where
  "hist_of lengths = foldl (\<lambda>hist length. dict_modify hist length 0 (\<lambda>c. c + 1)) [] lengths"

text \<open>
  The body of the loop \<^verbatim>\<open>for direction, lengths in stats\<close> of
  \<^verbatim>\<open>calculate_wire_length_stats\<close>. The guide is Python 2, where
  \<^verbatim>\<open>/\<close> is the division of the type of its operands: the division of
  reals on floats and the division that rounds down on integers. The model is written
  over any ordered number type with a division, and \<open>divide\<close> is that type's
  own: \<open>/\<close> on \<open>real\<close>, \<open>div\<close> on \<open>int\<close>. The wire lengths
  of the guide are physical distances, printed with \<^verbatim>\<open>%.2f\<close> and
  binned from \<^verbatim>\<open>0.0\<close>: they are floats, modelled by \<open>real\<close>
  without the rounding of floating-point arithmetic. \<^verbatim>\<open>min(hist)\<close>
  raises \<^verbatim>\<open>ValueError\<close> on an empty table and the division raises
  \<^verbatim>\<open>ZeroDivisionError\<close> when \<^verbatim>\<open>num_bins\<close> is zero.
\<close>

definition bin_start_of :: "'a::linordered_idom \<Rightarrow> 'a \<Rightarrow> int \<Rightarrow> 'a" where
  "bin_start_of min_len bin_len bin_num =
     (if bin_num > 0 then min_len + (of_int bin_num * bin_len) else 0)"

definition bin_end_of :: "'a::linordered_idom \<Rightarrow> 'a \<Rightarrow> int \<Rightarrow> 'a" where
  "bin_end_of min_len bin_len bin_num =
     min_len + (of_int bin_num * bin_len) + bin_len"

definition bin_sum :: "('a::linorder \<times> nat) list \<Rightarrow> 'a \<Rightarrow> 'a \<Rightarrow> nat" where
  "bin_sum hist bin_start bin_end =
     sum_list (map snd (filter (\<lambda>(l, c). bin_start < l \<and> l \<le> bin_end) hist))"

definition frequencies ::
  "'a::{linordered_idom, idom_divide} list \<Rightarrow> int \<Rightarrow> error + ('a \<times> 'a \<times> nat) list" where
  "frequencies lengths num_bins =
     (case map fst (hist_of lengths) of
        [] \<Rightarrow> Inl ValueError
      | k # ks \<Rightarrow>
          let min_len = fold min ks k;
              max_len = fold max ks k
          in if num_bins = 0 then Inl ZeroDivisionError
             else
               let bin_len = divide (max_len - min_len) (of_int num_bins);
                   out_frequencies =
                     map (\<lambda>bin_num.
                            (bin_start_of min_len bin_len bin_num,
                             bin_end_of min_len bin_len bin_num,
                             bin_sum (hist_of lengths)
                               (bin_start_of min_len bin_len bin_num)
                               (bin_end_of min_len bin_len bin_num)))
                         (map int [0..<nat num_bins])
               in Inr (sort_key (\<lambda>(bs, be, c). bs) out_frequencies))"



definition principal :: "direction list" where
  "principal = [NORTH, EAST, SOUTH_WEST]"


section \<open>Cabinet coordinates and directions\<close>

text \<open>
  Modelled from the spec: \<^verbatim>\<open>coordinates.Cabinet\<close>, the cabinet-triple
  (cabinet, rack, slot) of a board. The class is not part of the wiring guide; the
  guide subtracts two triples (the relative wire vector: the target's triple minus the
  board's own), takes \<^verbatim>\<open>abs\<close> of the difference and unpacks the result into
  three components, so both operations are taken componentwise.
\<close>

type_synonym coord = "int \<times> int \<times> int"

definition coord_sub :: "coord \<Rightarrow> coord \<Rightarrow> coord" where
  "coord_sub a b =
     (case a of (c1, r1, s1) \<Rightarrow> case b of (c2, r2, s2) \<Rightarrow> (c1 - c2, r1 - r2, s1 - s2))"

definition coord_abs :: "coord \<Rightarrow> coord" where
  "coord_abs a = (case a of (c, r, s) \<Rightarrow> (\<bar>c\<bar>, \<bar>r\<bar>, \<bar>s\<bar>))"

text \<open>
  Modelled from the spec: \<^verbatim>\<open>topology.opposite\<close>. Each direction has a unique
  opposite: North and South, NorthEast and SouthWest, East and West.
\<close>

fun opposite :: "direction \<Rightarrow> direction" where
  "opposite NORTH = SOUTH"
| "opposite SOUTH = NORTH"
| "opposite NORTH_EAST = SOUTH_WEST"
| "opposite SOUTH_WEST = NORTH_EAST"
| "opposite EAST = WEST"
| "opposite WEST = EAST"

section \<open>Wires leaving racks and cabinets\<close>

text \<open>
  The body of the inner loop of \<^verbatim>\<open>calculate_wire_cabinet_stats\<close>: look up
  both ends of the wire, unpack the absolute difference and bump one of the three
  counters of the direction, or fail the assertion when the two triples are equal.
\<close>

definition count_wire ::
  "(board \<Rightarrow> coord option) \<Rightarrow> wiring \<Rightarrow> board \<Rightarrow> direction \<Rightarrow> nat list \<Rightarrow> error + nat list" where
  "count_wire b2c follow_wire board direction counters =
     (case subscript b2c board of
        Inl e \<Rightarrow> Inl e
      | Inr source \<Rightarrow>
          (case subscript b2c (follow_wire board direction) of
             Inl e \<Rightarrow> Inl e
           | Inr target \<Rightarrow>
               (case coord_abs (coord_sub target source) of
                  (cabinets, racks, slots) \<Rightarrow>
                    if cabinets > 0 then Inr (counters[0 := counters ! 0 + 1])
                    else if racks > 0 then Inr (counters[1 := counters ! 1 + 1])
                    else if slots > 0 then Inr (counters[2 := counters ! 2 + 1])
                    else Inl AssertionError)))"

text \<open>\<^verbatim>\<open>for direction, counters in stats\<close>, for one board.\<close>

fun count_board ::
  "(board \<Rightarrow> coord option) \<Rightarrow> wiring \<Rightarrow> board \<Rightarrow> (direction \<times> nat list) list \<Rightarrow>
   error + (direction \<times> nat list) list" where
  "count_board b2c follow_wire board [] = Inr []"
| "count_board b2c follow_wire board ((direction, counters) # stats) =
     (case count_wire b2c follow_wire board direction counters of
        Inl e \<Rightarrow> Inl e
      | Inr counters' \<Rightarrow>
          (case count_board b2c follow_wire board stats of
             Inl e \<Rightarrow> Inl e
           | Inr stats' \<Rightarrow> Inr ((direction, counters') # stats')))"

text \<open>\<^verbatim>\<open>for board, coord in cabinet_torus\<close>.\<close>

fun count_boards ::
  "(board \<Rightarrow> coord option) \<Rightarrow> wiring \<Rightarrow> (board \<times> coord) list \<Rightarrow> (direction \<times> nat list) list \<Rightarrow>
   error + (direction \<times> nat list) list" where
  "count_boards b2c follow_wire [] stats = Inr stats"
| "count_boards b2c follow_wire ((board, coord) # rest) stats =
     (case count_board b2c follow_wire board stats of
        Inl e \<Rightarrow> Inl e
      | Inr stats' \<Rightarrow> count_boards b2c follow_wire rest stats')"

text \<open>
  \<^verbatim>\<open>calculate_wire_cabinet_stats(boards)\<close>. The two strings it returns are
  modelled by the numbers printed into them, in the order they are printed: per
  direction the total, then \<^verbatim>\<open>counters[2]\<close> (column ``Staying In-Rack''),
  \<^verbatim>\<open>counters[1]\<close> (``Between Racks'') and \<^verbatim>\<open>counters[0]\<close>
  (``Between Cabinets''), and the same four sums over the directions.
\<close>

definition calculate_wire_cabinet_stats ::
  "wiring \<Rightarrow> (board \<times> coord) list \<Rightarrow> (board \<times> coord) list \<Rightarrow>
   error + ((direction \<times> nat \<times> nat \<times> nat \<times> nat) list \<times> (nat \<times> nat \<times> nat \<times> nat))" where
  "calculate_wire_cabinet_stats follow_wire cabinet_torus boards =
     (case count_boards (dict boards) follow_wire cabinet_torus
             [(NORTH, [0, 0, 0]), (EAST, [0, 0, 0]), (SOUTH_WEST, [0, 0, 0])] of
        Inl e \<Rightarrow> Inl e
      | Inr stats \<Rightarrow>
          Inr (map (\<lambda>(direction, counters).
                      (direction, sum_list counters, counters ! 2, counters ! 1, counters ! 0))
                 stats,
               (sum_list (map (\<lambda>(d, counters). sum_list counters) stats),
                sum_list (map (\<lambda>(d, counters). counters ! 2) stats),
                sum_list (map (\<lambda>(d, counters). counters ! 1) stats),
                sum_list (map (\<lambda>(d, counters). counters ! 0) stats))))"







section \<open>Wiring loops and packet loops\<close>

text \<open>
  Modelled from the spec: \<^verbatim>\<open>board.follow_wiring_loop\<close>, which is not part
  of the wiring guide. From a start board, repeatedly apply \<open>follow_wire\<close> in a
  fixed direction until the start board recurs; the result is the visited sequence,
  beginning with the start board. \<open>None\<close> stands for a walk that never comes
  back.
\<close>

partial_function (option) wiring_loop_rest ::
  "wiring \<Rightarrow> direction \<Rightarrow> board \<Rightarrow> board \<Rightarrow> board list option" where
  "wiring_loop_rest follow_wire direction start_board cur_board =
     (if cur_board = start_board then Some []
      else Option.bind
             (wiring_loop_rest follow_wire direction start_board (follow_wire cur_board direction))
             (\<lambda>rest. Some (cur_board # rest)))"

declare wiring_loop_rest.simps [code]

definition follow_wiring_loop :: "wiring \<Rightarrow> board \<Rightarrow> direction \<Rightarrow> board list option" where
  "follow_wiring_loop follow_wire start_board direction =
     Option.bind
       (wiring_loop_rest follow_wire direction start_board (follow_wire start_board direction))
       (\<lambda>rest. Some (start_board # rest))"

text \<open>
  \<^verbatim>\<open>generate_wiring_loop(boards, direction, diagram, start)\<close>. The start
  board is looked up by its coordinate, the loop is followed, the colour of the
  direction is looked up in \<^verbatim>\<open>dict(DIRECTION_COLOURS)\<close> (which has the three
  principal directions only) and the length of the loop is returned. The drawing of the
  loop into the diagram is not modelled. The outer \<open>option\<close> is \<open>None\<close> when the
  loop never ends.
\<close>

definition generate_wiring_loop ::
  "wiring \<Rightarrow> (board \<times> 'c) list \<Rightarrow> direction \<Rightarrow> 'c \<Rightarrow> (error + nat) option" where
  "generate_wiring_loop follow_wire boards direction start =
     (case subscript (dict (map (\<lambda>(b, c). (c, b)) boards)) start of
        Inl e \<Rightarrow> Some (Inl e)
      | Inr start_board \<Rightarrow>
          (case follow_wiring_loop follow_wire start_board direction of
             None \<Rightarrow> None
           | Some loop \<Rightarrow>
               if direction \<in> set principal then Some (Inr (length loop))
               else Some (Inl KeyError)))"

text \<open>
  \<^verbatim>\<open>generate_packet_loop(boards, direction, diagram, start)\<close>.
  \<^verbatim>\<open>board.follow_packet_loop\<close> belongs to another module and is a parameter:
  it returns the list of (entry direction, board) pairs, or \<open>None\<close> when it never
  ends. The guide is Python 2 (\<^verbatim>\<open>iteritems\<close>, tuple parameters of
  \<^verbatim>\<open>lambda\<close>), so the \<^verbatim>\<open>/\<close> between two integers in
  \<^verbatim>\<open>((len(loop)*3)/2) * 4\<close> is the division that rounds down.
\<close>

definition generate_packet_loop ::
  "(board \<Rightarrow> direction \<Rightarrow> direction \<Rightarrow> (direction \<times> board) list option) \<Rightarrow>
   (board \<times> 'c) list \<Rightarrow> direction \<Rightarrow> 'c \<Rightarrow> (error + int) option" where
  "generate_packet_loop follow_packet_loop boards direction start =
     (case subscript (dict (map (\<lambda>(b, c). (c, b)) boards)) start of
        Inl e \<Rightarrow> Some (Inl e)
      | Inr start_board \<Rightarrow>
          (case follow_packet_loop start_board (opposite direction) direction of
             None \<Rightarrow> None
           | Some loop \<Rightarrow>
               if direction \<in> set principal
               then Some (Inr (((int (length loop) * 3) div 2) * 4))
               else Some (Inl KeyError)))"

section \<open>Wiring patterns\<close>







section \<open>The transform pipeline\<close>

text \<open>
  The stages of \<^verbatim>\<open>model.transforms\<close> and \<^verbatim>\<open>board.create_torus\<close>
  are functions of other modules; the guide only chains them. They are the fields of a
  record of parameters, each a function that returns its mapping or raises.
  \<open>fold_tf\<close> is \<^verbatim>\<open>transforms.fold\<close>.
\<close>

record ('h, 'f, 'p, 'sys) transforms =
  create_torus :: "int \<Rightarrow> int \<Rightarrow> error + (board \<times> 'h) list"
  hex_to_cartesian :: "(board \<times> 'h) list \<Rightarrow> error + (board \<times> 'f) list"
  rhombus_to_rect :: "(board \<times> 'f) list \<Rightarrow> error + (board \<times> 'f) list"
  compress :: "(board \<times> 'f) list \<Rightarrow> int \<Rightarrow> int \<Rightarrow> error + (board \<times> 'f) list"
  space_folds :: "(board \<times> 'f) list \<Rightarrow> int \<times> int \<Rightarrow> error + (board \<times> 'f) list"
  fold_tf :: "(board \<times> 'f) list \<Rightarrow> int \<times> int \<Rightarrow> error + (board \<times> 'f) list"
  cabinetise :: "(board \<times> 'f) list \<Rightarrow> int \<Rightarrow> int \<Rightarrow> int \<Rightarrow> error + (board \<times> coord) list"
  cabinet_to_physical :: "(board \<times> coord) list \<Rightarrow> 'sys \<Rightarrow> error + (board \<times> 'p) list"

text \<open>The parameters the pipeline reads from the parameter modules.\<close>

record 'sys params =
  width :: int
  height :: int
  compress_rows :: bool
  num_folds_x :: int
  num_folds_y :: int
  num_cabinets :: int
  num_racks_per_cabinet :: int
  num_slots_per_rack :: int
  cabinet_system :: 'sys

text \<open>The module-level variables the pipeline assigns, one per stage.\<close>

record ('h, 'f, 'p) models =
  torus :: "(board \<times> 'h) list"
  cart_torus :: "(board \<times> 'f) list"
  rect_torus :: "(board \<times> 'f) list"
  comp_torus :: "(board \<times> 'f) list"
  fold_spaced_torus :: "(board \<times> 'f) list"
  folded_torus :: "(board \<times> 'f) list"
  folded_spaced_torus :: "(board \<times> 'f) list"
  folded_cabinet_spaced_torus :: "(board \<times> 'f) list"
  cabinet_torus :: "(board \<times> coord) list"
  phys_torus :: "(board \<times> 'p) list"

text \<open>Sequencing: an exception of a stage ends the run.\<close>

definition bind_result :: "'e + 'a \<Rightarrow> ('a \<Rightarrow> 'e + 'b) \<Rightarrow> 'e + 'b" where
  "bind_result m f = (case m of Inl e \<Rightarrow> Inl e | Inr v \<Rightarrow> f v)"

text \<open>
  The statements of the section ``Generate models'', from
  \<^verbatim>\<open>torus = board.create_torus(width, height)\<close> to
  \<^verbatim>\<open>phys_torus = transforms.cabinet_to_physical(cabinet_torus, cabinet_system)\<close>,
  in their order.
\<close>

definition generate_models ::
  "('h, 'f, 'p, 'sys) transforms \<Rightarrow> 'sys params \<Rightarrow> error + ('h, 'f, 'p) models" where
  "generate_models T P =
     bind_result (create_torus T (width P) (height P)) (\<lambda>torus'.
     bind_result (hex_to_cartesian T torus') (\<lambda>cart_torus'.
     bind_result (rhombus_to_rect T cart_torus') (\<lambda>rect_torus'.
     bind_result (compress T rect_torus' (if compress_rows P then 1 else 2)
                                        (if compress_rows P then 2 else 1)) (\<lambda>comp_torus'.
     bind_result (space_folds T comp_torus' (num_folds_x P, num_folds_y P)) (\<lambda>fold_spaced_torus'.
     bind_result (fold_tf T comp_torus' (num_folds_x P, num_folds_y P)) (\<lambda>folded_torus'.
     bind_result (space_folds T folded_torus' (num_folds_x P, num_folds_y P)) (\<lambda>folded_spaced_torus'.
     bind_result (space_folds T folded_torus' (num_cabinets P, num_racks_per_cabinet P))
       (\<lambda>folded_cabinet_spaced_torus'.
     bind_result (cabinetise T folded_torus' (num_cabinets P) (num_racks_per_cabinet P)
                    (num_slots_per_rack P)) (\<lambda>cabinet_torus'.
     bind_result (cabinet_to_physical T cabinet_torus' (cabinet_system P)) (\<lambda>phys_torus'.
     Inr \<lparr> torus = torus', cart_torus = cart_torus', rect_torus = rect_torus',
           comp_torus = comp_torus', fold_spaced_torus = fold_spaced_torus',
           folded_torus = folded_torus', folded_spaced_torus = folded_spaced_torus',
           folded_cabinet_spaced_torus = folded_cabinet_spaced_torus',
           cabinet_torus = cabinet_torus', phys_torus = phys_torus' \<rparr>))))))))))"

text \<open>
  The functional chain in the words of the specification: hex to Cartesian, rhombus to
  rectangle, compress, fold, cabinetise, cabinet to physical, each applied to the
  result of the one before.
\<close>

definition functional_chain ::
  "('h, 'f, 'p, 'sys) transforms \<Rightarrow> 'sys params \<Rightarrow> error + (board \<times> 'p) list" where
  "functional_chain T P =
     bind_result (create_torus T (width P) (height P)) (\<lambda>a.
     bind_result (hex_to_cartesian T a) (\<lambda>b.
     bind_result (rhombus_to_rect T b) (\<lambda>c.
     bind_result (compress T c (if compress_rows P then 1 else 2)
                                (if compress_rows P then 2 else 1)) (\<lambda>d.
     bind_result (fold_tf T d (num_folds_x P, num_folds_y P)) (\<lambda>e.
     bind_result (cabinetise T e (num_cabinets P) (num_racks_per_cabinet P)
                    (num_slots_per_rack P)) (\<lambda>f.
     cabinet_to_physical T f (cabinet_system P)))))))"

section \<open>Wiring instructions\<close>

text \<open>
  One end of a wire: cabinet, rack, slot and socket name, the tuple
  \<^verbatim>\<open>tuple(list(coord) + [socket_names[direction]])\<close>. Python compares
  tuples, and strings, lexicographically; so does the order of the product and list
  types here.
\<close>

type_synonym endpoint = "int \<times> int \<times> int \<times> string"

type_synonym wire = "endpoint \<times> endpoint"


text \<open>\<^verbatim>\<open>tuple(sorted([source,target]))\<close>.\<close>

definition sorted_pair :: "endpoint \<Rightarrow> endpoint \<Rightarrow> wire" where
  "sorted_pair source target = (if target < source then (target, source) else (source, target))"














section \<open>Sample instances\<close>

text \<open>
  A small instance of the stage functions, used to run the pipeline on a concrete
  input: three boards, stages that keep the coordinates, a \<open>space_folds\<close> that
  doubles them and a \<open>cabinetise\<close> that puts every board into cabinet 0.
\<close>

definition sample_transforms :: "(int \<times> int, int \<times> int, int \<times> int \<times> int, unit) transforms" where
  "sample_transforms =
     \<lparr> create_torus = (\<lambda>w h. Inr [(0, (0, 0)), (1, (0, 1)), (2, (1, 1))]),
       hex_to_cartesian = (\<lambda>bs. Inr bs),
       rhombus_to_rect = (\<lambda>bs. Inr bs),
       compress = (\<lambda>bs a b. Inr bs),
       space_folds = (\<lambda>bs f. Inr (map (\<lambda>(b, (x, y)). (b, (2 * x, 2 * y))) bs)),
       fold_tf = (\<lambda>bs f. Inr bs),
       cabinetise = (\<lambda>bs c r s. Inr (map (\<lambda>(b, (x, y)). (b, (0, x, y))) bs)),
       cabinet_to_physical = (\<lambda>bs sys. Inr bs) \<rparr>"

definition sample_params :: "unit params" where
  "sample_params =
     \<lparr> width = 1, height = 1, compress_rows = True, num_folds_x = 1, num_folds_y = 1,
       num_cabinets = 1, num_racks_per_cabinet = 2, num_slots_per_rack = 2,
       cabinet_system = () \<rparr>"



text \<open>
  Four boards in a ring, each wired to the next in the principal directions and to the
  one before in the opposite directions: one principal wire stays in its rack, one runs
  between racks and two run between cabinets.
\<close>

definition ring_wiring :: wiring where
  "ring_wiring board direction =
     (if direction \<in> set principal then (board + 1) mod 4 else (board + 3) mod 4)"

definition ring_boards :: "(board \<times> coord) list" where
  "ring_boards = [(0, (0, 0, 0)), (1, (0, 0, 1)), (2, (0, 1, 0)), (3, (1, 0, 0))]"


text \<open>Two packet loops, of three and of two entries, whatever the start board is.\<close>

definition loop_of_three :: "board \<Rightarrow> direction \<Rightarrow> direction \<Rightarrow> (direction \<times> board) list option" where
  "loop_of_three start_board in_wire_side direction =
     Some [(in_wire_side, 0), (in_wire_side, 1), (in_wire_side, 2)]"

definition loop_of_two :: "board \<Rightarrow> direction \<Rightarrow> direction \<Rightarrow> (direction \<times> board) list option" where
  "loop_of_two start_board in_wire_side direction = Some [(in_wire_side, 0), (in_wire_side, 1)]"

section \<open>Properties of the dictionaries and of sequencing\<close>

lemma dict_modify_not_Nil: "dict_modify d k dflt f \<noteq> []"
  by (cases d) (auto split: if_splits)

lemma bind_result_Inr:
  "bind_result m f = Inr r \<longleftrightarrow> (\<exists>v. m = Inr v \<and> f v = Inr r)"
  by (cases m) (simp_all add: bind_result_def)








section \<open>The histogram of scenario B\<close>


text \<open>
  The same lengths as Python integers would be divided with rounding down: the bin width
  would be 1 instead of 1.6, the bins would end at 6 and the length 9 would be in none
  of them. The lengths the guide bins are distances in physical space, not integers.
\<close>

lemma scenario_B_integer_division:
  "frequencies [1, 1, 1, 5, 5, 9 :: int] 5 =
     Inr [(0, 2, 3), (2, 3, 0), (3, 4, 0), (4, 5, 2), (5, 6, 0)]"
  by (simp add: frequencies_def hist_of_def bin_start_of_def bin_end_of_def bin_sum_def
      upt_conv_Cons)

section \<open>The packet loop metric\<close>

text \<open>
  Claim C5, as amended. When the start coordinate is that of a board, the packet loop
  from it ends and the direction is a principal one, \<^verbatim>\<open>generate_packet_loop\<close>
  returns four times the integer part of one and a half times the loop length. That is
  six times the loop length when the loop length is even, and six times the loop length
  less two when it is odd.
\<close>

theorem generate_packet_loop_metric:
  assumes "dict (map (\<lambda>(b, c). (c, b)) boards) start = Some start_board"
    and "follow_packet_loop start_board (opposite direction) direction = Some loop"
    and "direction \<in> set principal"
  shows "generate_packet_loop follow_packet_loop boards direction start
           = Some (Inr (4 * ((3 * int (length loop)) div 2)))
         \<and> (even (length loop) \<longrightarrow>
              generate_packet_loop follow_packet_loop boards direction start
                = Some (Inr (6 * int (length loop))))
         \<and> (odd (length loop) \<longrightarrow>
              generate_packet_loop follow_packet_loop boards direction start
                = Some (Inr (6 * int (length loop) - 2)))"
proof -
  have val: "generate_packet_loop follow_packet_loop boards direction start
           = Some (Inr (4 * ((3 * int (length loop)) div 2)))"
    using assms by (simp add: generate_packet_loop_def subscript_def mult.commute)
  have ev: "even (length loop) \<Longrightarrow> 4 * ((3 * int (length loop)) div 2) = 6 * int (length loop)"
    by presburger
  have od: "odd (length loop) \<Longrightarrow> 4 * ((3 * int (length loop)) div 2) = 6 * int (length loop) - 2"
    by presburger
  show ?thesis using val ev od by simp
qed

text \<open>A packet loop of two entries gives the metric 12.\<close>

theorem generate_packet_loop_metric_witness:
  "generate_packet_loop loop_of_two [(0, (0::int, 0::int, 0::int))] NORTH (0, 0, 0) = Some (Inr 12)"
  using generate_packet_loop_metric [of "[(0, (0::int, 0::int, 0::int))]" "(0, 0, 0)" 0
      loop_of_two NORTH "[(SOUTH, 0), (SOUTH, 1)]"]
  by (simp add: dict_def principal_def loop_of_two_def)

text \<open>
  The metric is not one constant times the loop length: a loop of three entries gives
  16 and a loop of two entries gives 12, and 16 / 3 is not 12 / 2.
\<close>

theorem generate_packet_loop_not_proportional:
  "generate_packet_loop loop_of_three [(0, (0::int, 0::int, 0::int))] NORTH (0, 0, 0)
     = Some (Inr 16)
   \<and> generate_packet_loop loop_of_two [(0, (0::int, 0::int, 0::int))] NORTH (0, 0, 0)
     = Some (Inr 12)
   \<and> (16::int) * 2 \<noteq> 12 * 3"
  by (simp add: generate_packet_loop_def subscript_def dict_def principal_def
      loop_of_three_def loop_of_two_def)

section \<open>The histogram of equal lengths\<close>




text \<open>
  The two boundaries of the statement. The division is by the number of bins, so it
  fails exactly when no bin is requested, whatever the lengths are; and the first bin
  excludes 0, so lengths that are all 0 are in no bin.
\<close>

lemma hist_of_not_Nil: "ls \<noteq> [] \<Longrightarrow> hist_of ls \<noteq> []"
  by (cases ls rule: rev_cases) (simp_all add: hist_of_def dict_modify_not_Nil)

lemma frequencies_no_bins: "ls \<noteq> [] \<Longrightarrow> frequencies ls 0 = Inl ZeroDivisionError"
  using hist_of_not_Nil [of ls] by (cases "hist_of ls") (simp_all add: frequencies_def)

lemma frequencies_zero_lengths:
  "frequencies [0, 0 :: real] 3 = Inr [(0, 0, 0), (0, 0, 0), (0, 0, 0)]"
  by (simp add: frequencies_def hist_of_def bin_start_of_def bin_end_of_def bin_sum_def
        upt_conv_Cons)



section \<open>The functional chain of the pipeline\<close>

lemma generate_models_stages:
  assumes "generate_models T P = Inr M"
  shows "create_torus T (width P) (height P) = Inr (torus M)"
    and "hex_to_cartesian T (torus M) = Inr (cart_torus M)"
    and "rhombus_to_rect T (cart_torus M) = Inr (rect_torus M)"
    and "compress T (rect_torus M) (if compress_rows P then 1 else 2)
           (if compress_rows P then 2 else 1) = Inr (comp_torus M)"
    and "space_folds T (comp_torus M) (num_folds_x P, num_folds_y P) = Inr (fold_spaced_torus M)"
    and "fold_tf T (comp_torus M) (num_folds_x P, num_folds_y P) = Inr (folded_torus M)"
    and "space_folds T (folded_torus M) (num_folds_x P, num_folds_y P) = Inr (folded_spaced_torus M)"
    and "space_folds T (folded_torus M) (num_cabinets P, num_racks_per_cabinet P)
           = Inr (folded_cabinet_spaced_torus M)"
    and "cabinetise T (folded_torus M) (num_cabinets P) (num_racks_per_cabinet P)
           (num_slots_per_rack P) = Inr (cabinet_torus M)"
    and "cabinet_to_physical T (cabinet_torus M) (cabinet_system P) = Inr (phys_torus M)"
  using assms unfolding generate_models_def bind_result_Inr by auto

lemma functional_chain_of_models:
  assumes "generate_models T P = Inr M"
  shows "functional_chain T P = Inr (phys_torus M)"
  unfolding functional_chain_def
  by (simp add: generate_models_stages [OF assms] bind_result_def)

text \<open>The functional chain does not mention \<open>space_folds\<close> at all.\<close>

lemma functional_chain_space_folds:
  "functional_chain (T\<lparr>space_folds := sf\<rparr>) P = functional_chain T P"
  by (simp add: functional_chain_def)

lemma sample_models:
  "generate_models sample_transforms sample_params =
     Inr \<lparr> torus = [(0, 0, 0), (1, 0, 1), (2, 1, 1)],
           cart_torus = [(0, 0, 0), (1, 0, 1), (2, 1, 1)],
           rect_torus = [(0, 0, 0), (1, 0, 1), (2, 1, 1)],
           comp_torus = [(0, 0, 0), (1, 0, 1), (2, 1, 1)],
           fold_spaced_torus = [(0, 0, 0), (1, 0, 2), (2, 2, 2)],
           folded_torus = [(0, 0, 0), (1, 0, 1), (2, 1, 1)],
           folded_spaced_torus = [(0, 0, 0), (1, 0, 2), (2, 2, 2)],
           folded_cabinet_spaced_torus = [(0, 0, 0), (1, 0, 2), (2, 2, 2)],
           cabinet_torus = [(0, 0, 0, 0), (1, 0, 0, 1), (2, 0, 1, 1)],
           phys_torus = [(0, 0, 0, 0), (1, 0, 0, 1), (2, 0, 1, 1)] \<rparr>"
  by (simp add: generate_models_def sample_transforms_def sample_params_def bind_result_def)

text \<open>
  Claim C8. In a run of the pipeline that completes, \<open>fold\<close> is applied to the
  output of \<open>compress\<close> (not to an output of \<open>space_folds\<close>),
  \<open>cabinetise\<close> to the output of \<open>fold\<close> and \<open>cabinet_to_physical\<close> to
  the output of \<open>cabinetise\<close>, so that the final physical placement is
  \<open>cabinet_to_physical (cabinetise (fold (compress (rhombus_to_rect
  (hex_to_cartesian torus)))))\<close>. The outputs of \<open>space_folds\<close> are fed into no
  later stage: with any other \<open>space_folds\<close> in its place, a run that completes
  has the same compressed, folded, cabinetised and physical mappings.
\<close>

theorem space_folds_only_for_diagrams:
  assumes "generate_models T P = Inr M"
  shows "fold_tf T (comp_torus M) (num_folds_x P, num_folds_y P) = Inr (folded_torus M)
     \<and> cabinetise T (folded_torus M) (num_cabinets P) (num_racks_per_cabinet P)
         (num_slots_per_rack P) = Inr (cabinet_torus M)
     \<and> cabinet_to_physical T (cabinet_torus M) (cabinet_system P) = Inr (phys_torus M)
     \<and> functional_chain T P = Inr (phys_torus M)
     \<and> (\<forall>sf M'. generate_models (T\<lparr>space_folds := sf\<rparr>) P = Inr M' \<longrightarrow>
           comp_torus M' = comp_torus M \<and> folded_torus M' = folded_torus M
           \<and> cabinet_torus M' = cabinet_torus M \<and> phys_torus M' = phys_torus M)"
proof -
  note st = generate_models_stages [OF assms]
  have indep: "comp_torus M' = comp_torus M \<and> folded_torus M' = folded_torus M
           \<and> cabinet_torus M' = cabinet_torus M \<and> phys_torus M' = phys_torus M"
    if M': "generate_models (T\<lparr>space_folds := sf\<rparr>) P = Inr M'" for sf M'
  proof -
    note st' = generate_models_stages [OF M']
    from st'(1) st(1) have 1: "torus M' = torus M" by simp
    from st'(2) st(2) 1 have 2: "cart_torus M' = cart_torus M" by simp
    from st'(3) st(3) 2 have 3: "rect_torus M' = rect_torus M" by simp
    from st'(4) st(4) 3 have 4: "comp_torus M' = comp_torus M" by simp
    from st'(6) st(6) 4 have 5: "folded_torus M' = folded_torus M" by simp
    from st'(9) st(9) 5 have 6: "cabinet_torus M' = cabinet_torus M" by simp
    from st'(10) st(10) 6 have 7: "phys_torus M' = phys_torus M" by simp
    from 4 5 6 7 show ?thesis by simp
  qed
  from st(6) st(9) st(10) functional_chain_of_models [OF assms] indep
  show ?thesis by blast
qed

text \<open>
  On the sample instance the spaced mappings have doubled coordinates and the physical
  placement has not.
\<close>

theorem space_folds_only_for_diagrams_witness:
  "functional_chain sample_transforms sample_params = Inr [(0, 0, 0, 0), (1, 0, 0, 1), (2, 0, 1, 1)]"
  using space_folds_only_for_diagrams [OF sample_models] by simp

section \<open>Wiring patterns of one rack\<close>











section \<open>Counting the wires that leave racks and cabinets\<close>

















section \<open>The assertion of the wire counter\<close>





text \<open>
  The assertion guards exactly the excluded case: a board wired to itself fails it.
\<close>

lemma self_wire_fails:
  "calculate_wire_cabinet_stats (\<lambda>b d. b) [(0, (0, 0, 0))] [(0, (0, 0, 0))] = Inl AssertionError"
  by (simp add: calculate_wire_cabinet_stats_def dict_def
      count_wire_def subscript_def coord_abs_def coord_sub_def)

section \<open>Wiring loops end\<close>

text \<open>
  Iterating a function that maps a finite set into itself and is injective on it comes
  back to the point it started from, after at most as many steps as the set has
  elements.
\<close>

lemma orbit_closed:
  assumes "\<forall>b\<in>B. f b \<in> B" and "s \<in> B"
  shows "(f ^^ n) s \<in> B"
  using assms by (induction n) simp_all

lemma orbit_cancel:
  assumes closed: "\<forall>b\<in>B. f b \<in> B" and inj: "inj_on f B" and s: "s \<in> B"
    and eq: "(f ^^ (i + k)) s = (f ^^ i) s"
  shows "(f ^^ k) s = s"
  using eq
proof (induction i)
  case 0
  then show ?case by simp
next
  case (Suc i)
  then have "f ((f ^^ (i + k)) s) = f ((f ^^ i) s)" by simp
  moreover have "(f ^^ (i + k)) s \<in> B" "(f ^^ i) s \<in> B"
    using orbit_closed [OF closed s] by simp_all
  ultimately have "(f ^^ (i + k)) s = (f ^^ i) s"
    using inj by (simp add: inj_on_def)
  then show ?case by (rule Suc.IH)
qed

lemma orbit_returns:
  assumes fin: "finite B" and closed: "\<forall>b\<in>B. f b \<in> B" and inj: "inj_on f B" and s: "s \<in> B"
  shows "\<exists>n. 0 < n \<and> n \<le> card B \<and> (f ^^ n) s = s"
proof -
  let ?g = "\<lambda>i. (f ^^ i) s"
  have "?g ` {0..card B} \<subseteq> B"
    using orbit_closed [OF closed s] by auto
  then have "card (?g ` {0..card B}) \<le> card B"
    using fin by (rule card_mono [rotated])
  then have "card (?g ` {0..card B}) < card {0..card B}" by simp
  then have "\<not> inj_on ?g {0..card B}" by (rule pigeonhole)
  then obtain i j where ij: "i \<le> card B" "j \<le> card B" "i \<noteq> j" "?g i = ?g j"
    by (auto simp: inj_on_def)
  have ret: "\<exists>n. 0 < n \<and> n \<le> card B \<and> (f ^^ n) s = s"
    if "a < b" "b \<le> card B" "(f ^^ a) s = (f ^^ b) s" for a b
  proof -
    from that have "(f ^^ (a + (b - a))) s = (f ^^ a) s" by simp
    then have "(f ^^ (b - a)) s = s" by (rule orbit_cancel [OF closed inj s])
    with that show ?thesis by (intro exI [of _ "b - a"]) simp
  qed
  show ?thesis
  proof (cases "i < j")
    case True
    with ij show ?thesis by (intro ret [of i j]) simp_all
  next
    case False
    with ij have "j < i" by simp
    with ij show ?thesis by (intro ret [of j i]) simp_all
  qed
qed

text \<open>
  The loop follows the iterates of \<open>follow_wire\<close> up to the first return to the
  start board.
\<close>

lemma wiring_loop_rest_orbit:
  assumes ret: "((\<lambda>b. follow_wire b direction) ^^ n) s = s"
    and first: "\<forall>i. 0 < i \<and> i < n \<longrightarrow> ((\<lambda>b. follow_wire b direction) ^^ i) s \<noteq> s"
    and "i \<le> n" and "0 < i"
  shows "wiring_loop_rest follow_wire direction s (((\<lambda>b. follow_wire b direction) ^^ i) s)
         = Some (map (\<lambda>j. ((\<lambda>b. follow_wire b direction) ^^ j) s) [i..<n])"
  using assms(3,4)
proof (induction "n - i" arbitrary: i)
  case 0
  then have "i = n" by simp
  with ret show ?case by (simp add: wiring_loop_rest.simps)
next
  case (Suc k)
  then have lt: "i < n" by simp
  with Suc.prems first have ne: "((\<lambda>b. follow_wire b direction) ^^ i) s \<noteq> s" by simp
  from Suc lt have "wiring_loop_rest follow_wire direction s (((\<lambda>b. follow_wire b direction) ^^ Suc i) s)
         = Some (map (\<lambda>j. ((\<lambda>b. follow_wire b direction) ^^ j) s) [Suc i..<n])"
    by (intro Suc.hyps) simp_all
  with ne lt show ?case
    by (subst wiring_loop_rest.simps) (simp add: upt_conv_Cons)
qed

lemma follow_wiring_loop_orbit:
  assumes ret: "((\<lambda>b. follow_wire b direction) ^^ n) s = s"
    and first: "\<forall>i. 0 < i \<and> i < n \<longrightarrow> ((\<lambda>b. follow_wire b direction) ^^ i) s \<noteq> s"
    and pos: "0 < n"
  shows "follow_wiring_loop follow_wire s direction
         = Some (map (\<lambda>j. ((\<lambda>b. follow_wire b direction) ^^ j) s) [0..<n])"
proof -
  from pos have "wiring_loop_rest follow_wire direction s (((\<lambda>b. follow_wire b direction) ^^ 1) s)
         = Some (map (\<lambda>j. ((\<lambda>b. follow_wire b direction) ^^ j) s) [1..<n])"
    using ret first by (intro wiring_loop_rest_orbit) simp_all
  with pos show ?thesis by (simp add: follow_wiring_loop_def upt_conv_Cons)
qed

text \<open>A wire that can be followed back is followed from one board only.\<close>

lemma back_wire_inj:
  assumes "\<forall>b\<in>B. follow_wire (follow_wire b direction) (opposite direction) = b"
  shows "inj_on (\<lambda>b. follow_wire b direction) B"
proof (rule inj_onI)
  fix a b
  assume "a \<in> B" "b \<in> B" "follow_wire a direction = follow_wire b direction"
  then have "follow_wire (follow_wire a direction) (opposite direction)
             = follow_wire (follow_wire b direction) (opposite direction)"
    by simp
  with assms \<open>a \<in> B\<close> \<open>b \<in> B\<close> show "a = b" by simp
qed

lemma wiring_loop_cycle:
  assumes fin: "finite B"
    and closed: "\<forall>b\<in>B. follow_wire b direction \<in> B"
    and opp: "\<forall>b\<in>B. follow_wire (follow_wire b direction) (opposite direction) = b"
    and s: "s \<in> B"
  shows "\<exists>loop. follow_wiring_loop follow_wire s direction = Some loop
           \<and> 0 < length loop \<and> length loop \<le> card B
           \<and> hd loop = s \<and> distinct loop \<and> set loop \<subseteq> B
           \<and> (\<forall>i. Suc i < length loop \<longrightarrow> loop ! Suc i = follow_wire (loop ! i) direction)
           \<and> follow_wire (last loop) direction = s"
proof -
  define f where "f = (\<lambda>b. follow_wire b direction)"
  have closed': "\<forall>b\<in>B. f b \<in> B" using closed by (simp add: f_def)
  have inj: "inj_on f B" unfolding f_def using opp by (rule back_wire_inj)
  define n where "n = (LEAST n. 0 < n \<and> (f ^^ n) s = s)"
  from orbit_returns [OF fin closed' inj s]
  obtain m where m: "0 < m" "m \<le> card B" "(f ^^ m) s = s" by blast
  then have ex: "0 < m \<and> (f ^^ m) s = s" by simp
  from LeastI [of "\<lambda>n. 0 < n \<and> (f ^^ n) s = s", OF ex]
  have pos: "0 < n" and ret: "(f ^^ n) s = s" by (simp_all add: n_def)
  from Least_le [of "\<lambda>n. 0 < n \<and> (f ^^ n) s = s", OF ex] m(2)
  have bound: "n \<le> card B" by (simp add: n_def)
  have first: "(f ^^ i) s \<noteq> s" if "0 < i" "i < n" for i
    using not_less_Least [of i "\<lambda>n. 0 < n \<and> (f ^^ n) s = s"] that by (auto simp: n_def)
  define loop where "loop = map (\<lambda>j. (f ^^ j) s) [0..<n]"
  have run: "follow_wiring_loop follow_wire s direction = Some loop"
    unfolding loop_def f_def
    using ret first pos by (intro follow_wiring_loop_orbit) (auto simp: f_def)
  have len: "length loop = n" by (simp add: loop_def)
  have hd: "hd loop = s" using pos by (simp add: loop_def hd_map upt_conv_Cons)
  have sub: "set loop \<subseteq> B"
    using orbit_closed [OF closed' s] by (auto simp: loop_def)
  have "inj_on (\<lambda>j. (f ^^ j) s) {0..<n}"
  proof (rule inj_onI)
    fix a b
    assume a: "a \<in> {0..<n}" and b: "b \<in> {0..<n}" and eq: "(f ^^ a) s = (f ^^ b) s"
    have no: False if "x < y" "y < n" "(f ^^ x) s = (f ^^ y) s" for x y
    proof -
      from that have "(f ^^ (x + (y - x))) s = (f ^^ x) s" by simp
      then have "(f ^^ (y - x)) s = s" by (rule orbit_cancel [OF closed' inj s])
      moreover from that have "0 < y - x" "y - x < n" by simp_all
      ultimately show False using first by blast
    qed
    show "a = b"
    proof (rule ccontr)
      assume "a \<noteq> b"
      then consider "a < b" | "b < a" by linarith
      then show False
      proof cases
        case 1
        with b eq show False by (intro no [of a b]) simp_all
      next
        case 2
        with a eq show False by (intro no [of b a]) simp_all
      qed
    qed
  qed
  then have dist: "distinct loop" by (simp add: loop_def distinct_map)
  have step: "loop ! Suc i = follow_wire (loop ! i) direction" if "Suc i < length loop" for i
    using that by (simp add: loop_def f_def)
  from pos have "last loop = (f ^^ (n - 1)) s"
    by (simp add: loop_def last_map last_upt)
  then have "f (last loop) = (f ^^ Suc (n - 1)) s" by simp
  with pos ret have last: "follow_wire (last loop) direction = s" by (simp add: f_def)
  from run len pos bound hd dist sub step last show ?thesis by auto
qed

text \<open>
  Claim C4. On a torus (every wire of the direction leads to a board of the torus, and
  following the opposite direction from there leads back), the wiring loop from any
  board in any fixed direction ends: \<open>follow_wiring_loop\<close> returns the visited
  sequence, which begins with the start board, follows \<open>follow_wire\<close> from each
  board to the next, has no board twice (so the start board is met again only once, by
  the wire of the last board, which is where the loop ends) and has at most as many
  boards as the torus. Its length is what \<^verbatim>\<open>generate_wiring_loop\<close>
  returns for the start coordinate of the board and a principal direction.
\<close>

theorem wiring_loop_total:
  assumes closed: "\<forall>b\<in>fst ` set boards. follow_wire b direction \<in> fst ` set boards"
    and opp: "\<forall>b\<in>fst ` set boards.
                 follow_wire (follow_wire b direction) (opposite direction) = b"
    and s: "start_board \<in> fst ` set boards"
  shows "\<exists>loop. follow_wiring_loop follow_wire start_board direction = Some loop
           \<and> 0 < length loop \<and> length loop \<le> card (fst ` set boards)
           \<and> length loop \<le> length boards
           \<and> hd loop = start_board \<and> distinct loop \<and> set loop \<subseteq> fst ` set boards
           \<and> (\<forall>i. Suc i < length loop \<longrightarrow> loop ! Suc i = follow_wire (loop ! i) direction)
           \<and> follow_wire (last loop) direction = start_board
           \<and> (\<forall>start. dict (map (\<lambda>(b, c). (c, b)) boards) start = Some start_board
                        \<and> direction \<in> set principal \<longrightarrow>
                 generate_wiring_loop follow_wire boards direction start
                   = Some (Inr (length loop)))"
proof -
  from wiring_loop_cycle [OF _ closed opp s]
  obtain loop where loop: "follow_wiring_loop follow_wire start_board direction = Some loop"
    "0 < length loop" "length loop \<le> card (fst ` set boards)"
    "hd loop = start_board" "distinct loop" "set loop \<subseteq> fst ` set boards"
    "\<forall>i. Suc i < length loop \<longrightarrow> loop ! Suc i = follow_wire (loop ! i) direction"
    "follow_wire (last loop) direction = start_board"
    by auto
  have "card (fst ` set boards) \<le> length boards"
    by (metis card_length length_map set_map)
  with loop(3) have len: "length loop \<le> length boards" by simp
  have gen: "generate_wiring_loop follow_wire boards direction start = Some (Inr (length loop))"
    if "dict (map (\<lambda>(b, c). (c, b)) boards) start = Some start_board"
      "direction \<in> set principal" for start
    using that loop(1) by (simp add: generate_wiring_loop_def subscript_def)
  from loop len gen show ?thesis by blast
qed

text \<open>On the ring of four boards, from board 2.\<close>

theorem wiring_loop_total_witness:
  "\<exists>loop. follow_wiring_loop ring_wiring 2 NORTH = Some loop
      \<and> length loop \<le> 4 \<and> hd loop = 2 \<and> distinct loop
      \<and> ring_wiring (last loop) NORTH = 2
      \<and> generate_wiring_loop ring_wiring ring_boards NORTH (0, 1, 0) = Some (Inr (length loop))"
proof -
  have closed: "\<forall>b\<in>fst ` set ring_boards. ring_wiring b NORTH \<in> fst ` set ring_boards"
    by (simp add: ring_boards_def ring_wiring_def principal_def)
  have opp: "\<forall>b\<in>fst ` set ring_boards. ring_wiring (ring_wiring b NORTH) (opposite NORTH) = b"
    by (simp add: ring_boards_def ring_wiring_def principal_def)
  have s: "2 \<in> fst ` set ring_boards"
    by (simp add: ring_boards_def)
  have start: "dict (map (\<lambda>(b, c). (c, b)) ring_boards) (0, 1, 0) = Some 2"
    by (simp add: ring_boards_def dict_def)
  have d: "NORTH \<in> set principal"
    by (simp add: principal_def)
  have len: "length ring_boards = 4"
    by (simp add: ring_boards_def)
  from wiring_loop_total [OF closed opp s] start d len show ?thesis
    by fastforce
qed

lemma ring_loop: "follow_wiring_loop ring_wiring 2 NORTH = Some [2, 3, 0, 1]"
  by (simp add: follow_wiring_loop_def wiring_loop_rest.simps ring_wiring_def principal_def)

section \<open>Wiring instructions: records, groups and tables\<close>



text \<open>A record is the pair of the two ends of a wire, the smaller end first.\<close>

lemma sorted_pair_le: "sorted_pair a b = (s, t) \<Longrightarrow> s \<le> t"
  by (auto simp: sorted_pair_def split: if_splits)

lemma sorted_pair_ends: "sorted_pair a b = (s, t) \<Longrightarrow> {s, t} = {a, b}"
  by (auto simp: sorted_pair_def split: if_splits)












end
